theory Spec2Isabelle
  imports Main
begin

section \<open>Python values used by \<open>runner/models.py\<close>\<close>

text \<open>
  The module declares Django models and a handful of derived accessors. The accessors
  use three kinds of Python values: text, floats and \<open>None\<close>. Text is a sequence of
  Unicode code points (the module formats a GREEK SMALL LETTER MU, which is no 8-bit
  character), so a Python string is a list of code points; \<open>ascii\<close> turns an ASCII
  literal into one. The string semantics followed is that of Python 3, where \<open>str\<close>
  applied to a string returns it unchanged.
\<close>

type_synonym ustring = "nat list"

definition ascii :: "string \<Rightarrow> ustring" where
  "ascii s = map of_char s"

definition GREEK_SMALL_LETTER_MU :: nat where
  "GREEK_SMALL_LETTER_MU = 956"

datatype error = TypeError | IndexError | AttributeError

subsection \<open>Floats\<close>

text \<open>
  A Python float is an IEEE 754 binary64 number. \<open>Finite s m t\<close> is the number
  \<open>(-1)\<^sup>s * m * 2\<^sup>t\<close>; the numbers a double can hold have \<open>m < 2\<^sup>5\<^sup>3\<close> and
  \<open>-1074 \<le> t \<le> 971\<close>, with \<open>2\<^sup>5\<^sup>2 \<le> m\<close> unless \<open>t = -1074\<close> (subnormals and the two
  zeros). \<open>round_to_double s n d\<close> is the double nearest to \<open>(-1)\<^sup>s * n / d\<close>, ties going
  to the even significand and overflow to infinity, which is how the interpreter reads a
  decimal literal and how the hardware rounds a product.
\<close>

datatype pyfloat = Finite bool nat int | Infinity bool | NaN

fun bit_length :: "nat \<Rightarrow> nat" where
  "bit_length n = (if n = 0 then 0 else Suc (bit_length (n div 2)))"

declare bit_length.simps [simp del]

definition round_div_half_even :: "nat \<Rightarrow> nat \<Rightarrow> nat" where
  "round_div_half_even n d =
     (let q = n div d; r = n mod d
      in if d < 2 * r \<or> (2 * r = d \<and> odd q) then q + 1 else q)"

definition ratio_ge_pow2 :: "nat \<Rightarrow> nat \<Rightarrow> int \<Rightarrow> bool" where
  "ratio_ge_pow2 n d k =
     (if 0 \<le> k then d * 2 ^ nat k \<le> n else d \<le> n * 2 ^ nat (- k))"

definition round_to_double :: "bool \<Rightarrow> nat \<Rightarrow> nat \<Rightarrow> pyfloat" where
  "round_to_double s n d =
     (if n = 0 then Finite s 0 (- 1074)
      else
        let k = int (bit_length n) - int (bit_length d);
            fl = (if ratio_ge_pow2 n d k then k else k - 1);
            t = max (fl - 52) (- 1074);
            m = (if 0 \<le> t then round_div_half_even n (d * 2 ^ nat t)
                 else round_div_half_even (n * 2 ^ nat (- t)) d);
            m' = (if m = 2 ^ 53 then 2 ^ 52 else m);
            t' = (if m = 2 ^ 53 then t + 1 else t)
        in if 971 < t' then Infinity s else Finite s m' t')"

text \<open>The float written \<open>n/d\<close> in decimal, such as \<open>0.873\<close> for \<open>873/1000\<close>.\<close>

definition float_of_decimal :: "nat \<Rightarrow> nat \<Rightarrow> pyfloat" where
  "float_of_decimal n d = round_to_double False n d"

text \<open>The float of a small integer constant (\<open>100\<close> and \<open>1000\<close> in the module).\<close>

definition float_of_int :: "int \<Rightarrow> pyfloat" where
  "float_of_int k = round_to_double (k < 0) (nat \<bar>k\<bar>) 1"

fun float_mul :: "pyfloat \<Rightarrow> pyfloat \<Rightarrow> pyfloat" where
  "float_mul NaN y = NaN"
| "float_mul x NaN = NaN"
| "float_mul (Infinity s1) (Infinity s2) = Infinity (s1 \<noteq> s2)"
| "float_mul (Infinity s1) (Finite s2 m2 t2) =
     (if m2 = 0 then NaN else Infinity (s1 \<noteq> s2))"
| "float_mul (Finite s1 m1 t1) (Infinity s2) =
     (if m1 = 0 then NaN else Infinity (s1 \<noteq> s2))"
| "float_mul (Finite s1 m1 t1) (Finite s2 m2 t2) =
     (let t = t1 + t2
      in if 0 \<le> t then round_to_double (s1 \<noteq> s2) (m1 * m2 * 2 ^ nat t) 1
         else round_to_double (s1 \<noteq> s2) (m1 * m2) (2 ^ nat (- t)))"

text \<open>Truth value of a float: every float but the two zeros is true.\<close>

fun float_bool :: "pyfloat \<Rightarrow> bool" where
  "float_bool (Finite s m t) = (m \<noteq> 0)"
| "float_bool (Infinity s) = True"
| "float_bool NaN = True"

fun decimal :: "nat \<Rightarrow> ustring" where
  "decimal n = (if n < 10 then [48 + n] else decimal (n div 10) @ [48 + n mod 10])"

declare decimal.simps [simp del]

text \<open>
  \<open>float_format_f p x\<close> is \<open>'%.pf' % x\<close>: the exact value of \<open>x\<close> rounded to \<open>p\<close>
  decimals (ties to even), a minus sign whenever the sign bit is set, and the decimal
  point only if \<open>p > 0\<close>.
\<close>

fun float_format_f :: "nat \<Rightarrow> pyfloat \<Rightarrow> ustring" where
  "float_format_f p (Finite s m t) =
     (let scaled = (if 0 \<le> t then m * 2 ^ nat t * 10 ^ p
                    else round_div_half_even (m * 10 ^ p) (2 ^ nat (- t)));
          whole = decimal (scaled div 10 ^ p);
          frac = decimal (scaled mod 10 ^ p)
      in (if s then ascii ''-'' else []) @ whole @
         (if p = 0 then [] else ascii ''.'' @ replicate (p - length frac) 48 @ frac))"
| "float_format_f p (Infinity s) = (if s then ascii ''-inf'' else ascii ''inf'')"
| "float_format_f p NaN = ascii ''nan''"

subsection \<open>Values stored in a float column\<close>

text \<open>
  A nullable float column holds \<open>None\<close> or a float once a record is validated or loaded,
  but the attribute itself is an ordinary Python attribute, and the performance display
  is written to cope with a value that is no number. \<open>PyStr\<close> stands for such a value.
\<close>

datatype pyval = PyNone | PyFloat pyfloat | PyStr ustring

fun none_or_float :: "pyval \<Rightarrow> bool" where
  "none_or_float PyNone = True"
| "none_or_float (PyFloat x) = True"
| "none_or_float (PyStr t) = False"

text \<open>Truth value, as tested by \<open>if v:\<close>.\<close>

fun py_bool :: "pyval \<Rightarrow> bool" where
  "py_bool PyNone = False"
| "py_bool (PyFloat x) = float_bool x"
| "py_bool (PyStr t) = (t \<noteq> [])"

text \<open>\<open>k * v\<close> for an integer constant \<open>k\<close>: a string is repeated, \<open>None\<close> is rejected.\<close>

fun py_int_mul :: "int \<Rightarrow> pyval \<Rightarrow> error + pyval" where
  "py_int_mul k PyNone = Inl TypeError"
| "py_int_mul k (PyFloat x) = Inr (PyFloat (float_mul (float_of_int k) x))"
| "py_int_mul k (PyStr t) = Inr (PyStr (concat (replicate (nat k) t)))"

text \<open>\<open>'%.pf' % v\<close>: only a number can be formatted.\<close>

fun py_format_f :: "nat \<Rightarrow> pyval \<Rightarrow> error + ustring" where
  "py_format_f p PyNone = Inl TypeError"
| "py_format_f p (PyFloat x) = Inr (float_format_f p x)"
| "py_format_f p (PyStr t) = Inl TypeError"

text \<open>\<open>obj[i]\<close> for a tuple or list and a literal index \<open>i \<ge> 0\<close>.\<close>

definition getitem :: "'a list \<Rightarrow> nat \<Rightarrow> error + 'a" where
  "getitem obj i = (if i < length obj then Inr (obj ! i) else Inl IndexError)"

section \<open>Session\<close>

text \<open>
  The record holds the columns of \<open>Session\<close> that its methods read: the name (the
  primary key, a string column; \<open>None\<close> or the empty string while unassigned) and the six
  user-provided float columns.
\<close>

record session =
  name :: "ustring option"
  user_data_left_water_consumption :: pyval
  user_data_right_water_consumption :: pyval
  user_data_left_valve_mean :: pyval
  user_data_right_valve_mean :: pyval
  user_data_left_perf :: pyval
  user_data_right_perf :: pyval

text \<open>\<open>Session.__str__\<close>\<close>

definition session_str :: "session \<Rightarrow> ustring" where
  "session_str self =
     (case name self of
        None \<Rightarrow> ascii ''Unstarted''
      | Some n \<Rightarrow> if n \<noteq> [] then n else ascii ''Unstarted'')"

text \<open>
  The body shared by \<open>left_valve_summary\<close> and \<open>right_valve_summary\<close>, which differ only
  in the two columns they read: \<open>res\<close> starts empty, the first \<open>if\<close> appends the
  consumption, the second the valve mean; an exception raised by a format leaves the
  method.
\<close>

definition valve_summary :: "pyval \<Rightarrow> pyval \<Rightarrow> error + ustring" where
  "valve_summary water_consumption valve_mean =
     (let res = []
      in case (if py_bool water_consumption
               then (case py_format_f 2 water_consumption of
                       Inl e \<Rightarrow> Inl e
                     | Inr txt \<Rightarrow> Inr (res @ txt))
               else Inr res) of
           Inl e \<Rightarrow> Inl e
         | Inr res \<Rightarrow>
             if py_bool valve_mean
             then (case py_int_mul 1000 valve_mean of
                     Inl e \<Rightarrow> Inl e
                   | Inr scaled \<Rightarrow>
                       (case py_format_f 1 scaled of
                          Inl e \<Rightarrow> Inl e
                        | Inr txt \<Rightarrow>
                            Inr (res @ ascii '' @'' @ txt @ ascii '' '' @
                                 [GREEK_SMALL_LETTER_MU] @ ascii ''L'')))
             else Inr res)"

definition left_valve_summary :: "session \<Rightarrow> error + ustring" where
  "left_valve_summary self =
     valve_summary (user_data_left_water_consumption self) (user_data_left_valve_mean self)"

definition right_valve_summary :: "session \<Rightarrow> error + ustring" where
  "right_valve_summary self =
     valve_summary (user_data_right_water_consumption self) (user_data_right_valve_mean self)"

text \<open>
  The body shared by \<open>display_left_perf\<close> and \<open>display_right_perf\<close>: the bare
  \<open>except\<close> turns every exception of the product or of the format into \<open>'NA'\<close>.
\<close>

definition display_perf :: "pyval \<Rightarrow> ustring" where
  "display_perf perf =
     (case py_int_mul 100 perf of
        Inl e \<Rightarrow> ascii ''NA''
      | Inr scaled \<Rightarrow>
          (case py_format_f 0 scaled of
             Inl e \<Rightarrow> ascii ''NA''
           | Inr txt \<Rightarrow> txt))"

definition display_left_perf :: "session \<Rightarrow> ustring" where
  "display_left_perf self = display_perf (user_data_left_perf self)"

definition display_right_perf :: "session \<Rightarrow> ustring" where
  "display_right_perf self = display_perf (user_data_right_perf self)"

section \<open>Box\<close>

text \<open>
  All columns of \<open>Box\<close>, typed as declared (a nullable column is an option); the
  column \<open>name\<close> is \<open>box_name\<close> here, apart from the name of a session.
  \<open>instance_dict\<close> holds the attributes attached to the object that the class does not
  declare; an attribute the class does not declare is looked up there.
\<close>

record box =
  box_name :: ustring
  l_reward_duration :: int
  r_reward_duration :: "int option"
  serial_port :: ustring
  video_device :: "ustring option"
  video_window_position_x :: "int option"
  video_window_position_y :: "int option"
  gui_window_position_x :: "int option"
  gui_window_position_y :: "int option"
  window_position_IR_plot_x :: "int option"
  window_position_IR_plot_y :: "int option"
  subprocess_window_ypos :: "int option"
  video_brightness :: "int option"
  video_gain :: "int option"
  video_exposure :: "int option"
  instance_dict :: "string \<Rightarrow> session list option"

definition video_window_position :: "box \<Rightarrow> int option \<times> int option" where
  "video_window_position self = (video_window_position_x self, video_window_position_y self)"

text \<open>
  A setter runs two assignments; the second element is read after the first field has
  been written, so the result is the outcome together with the box as the setter left
  it.
\<close>

definition set_video_window_position :: "box \<Rightarrow> int option list \<Rightarrow> (error + unit) \<times> box" where
  "set_video_window_position self obj =
     (case getitem obj 0 of
        Inl e \<Rightarrow> (Inl e, self)
      | Inr x \<Rightarrow>
          (let self1 = self\<lparr>video_window_position_x := x\<rparr>
           in case getitem obj 1 of
                Inl e \<Rightarrow> (Inl e, self1)
              | Inr y \<Rightarrow> (Inr (), self1\<lparr>video_window_position_y := y\<rparr>)))"

definition gui_window_position :: "box \<Rightarrow> int option \<times> int option" where
  "gui_window_position self = (gui_window_position_x self, gui_window_position_y self)"

definition set_gui_window_position :: "box \<Rightarrow> int option list \<Rightarrow> (error + unit) \<times> box" where
  "set_gui_window_position self obj =
     (case getitem obj 0 of
        Inl e \<Rightarrow> (Inl e, self)
      | Inr x \<Rightarrow>
          (let self1 = self\<lparr>gui_window_position_x := x\<rparr>
           in case getitem obj 1 of
                Inl e \<Rightarrow> (Inl e, self1)
              | Inr y \<Rightarrow> (Inr (), self1\<lparr>gui_window_position_y := y\<rparr>)))"

definition window_position_IR_plot :: "box \<Rightarrow> int option \<times> int option" where
  "window_position_IR_plot self =
     (window_position_IR_plot_x self, window_position_IR_plot_y self)"

definition set_window_position_IR_plot :: "box \<Rightarrow> int option list \<Rightarrow> (error + unit) \<times> box" where
  "set_window_position_IR_plot self obj =
     (case getitem obj 0 of
        Inl e \<Rightarrow> (Inl e, self)
      | Inr x \<Rightarrow>
          (let self1 = self\<lparr>window_position_IR_plot_x := x\<rparr>
           in case getitem obj 1 of
                Inl e \<Rightarrow> (Inl e, self1)
              | Inr y \<Rightarrow> (Inr (), self1\<lparr>window_position_IR_plot_y := y\<rparr>)))"

text \<open>
  \<open>mean_water_consumed\<close> evaluates \<open>self.session_list[0].name\<close>. The class declares no
  \<open>session_list\<close>, so the attribute is looked up in the instance dictionary.
\<close>

definition mean_water_consumed :: "box \<Rightarrow> error + ustring option" where
  "mean_water_consumed self =
     (case instance_dict self ''session_list'' of
        None \<Rightarrow> Inl AttributeError
      | Some session_list \<Rightarrow>
          (case getitem session_list 0 of
             Inl e \<Rightarrow> Inl e
           | Inr s \<Rightarrow> Inr (name s)))"

section \<open>Example records\<close>

text \<open>A session as it is before anything has been entered, and a box with no window placed.\<close>

definition unstarted_session :: session where
  "unstarted_session =
     \<lparr>name = None,
      user_data_left_water_consumption = PyNone,
      user_data_right_water_consumption = PyNone,
      user_data_left_valve_mean = PyNone,
      user_data_right_valve_mean = PyNone,
      user_data_left_perf = PyNone,
      user_data_right_perf = PyNone\<rparr>"

definition example_box :: box where
  "example_box =
     \<lparr>box_name = ascii ''CR1'',
      l_reward_duration = 50,
      r_reward_duration = None,
      serial_port = ascii ''/dev/ttyACM0'',
      video_device = None,
      video_window_position_x = None,
      video_window_position_y = None,
      gui_window_position_x = None,
      gui_window_position_y = None,
      window_position_IR_plot_x = None,
      window_position_IR_plot_y = None,
      subprocess_window_ypos = None,
      video_brightness = None,
      video_gain = None,
      video_exposure = None,
      instance_dict = (\<lambda>attr. None)\<rparr>"

section \<open>The rounding helpers\<close>

text \<open>
  \<open>bit_length\<close> is the number of binary digits, and \<open>round_div_half_even n d\<close> is an
  integer nearest to \<open>n / d\<close>: it is off by half a unit at most.
\<close>

lemma bit_length_bounds:
  "0 < n \<Longrightarrow> 2 ^ (bit_length n - 1) \<le> n \<and> n < 2 ^ bit_length n"
proof (induction n rule: bit_length.induct)
  case (1 n)
  show ?case
  proof (cases "n div 2 = 0")
    case True
    with "1.prems" have "n = 1" by auto
    then show ?thesis by (simp add: bit_length.simps)
  next
    case False
    with "1.IH" "1.prems" have IH: "2 ^ (bit_length (n div 2) - 1) \<le> n div 2"
      "n div 2 < 2 ^ bit_length (n div 2)" by auto
    have pos: "0 < bit_length (n div 2)" using False by (simp add: bit_length.simps)
    have eq: "bit_length n = Suc (bit_length (n div 2))"
      using "1.prems" by (subst bit_length.simps) simp
    have "2 ^ (bit_length n - 1) = 2 * 2 ^ (bit_length (n div 2) - 1)"
      using pos eq by (cases "bit_length (n div 2)") simp_all
    also have "\<dots> \<le> 2 * (n div 2)" using IH(1) by simp
    also have "\<dots> \<le> n" by simp
    finally have lower: "2 ^ (bit_length n - 1) \<le> n" .
    have "n < 2 * (n div 2) + 2" by presburger
    also have "\<dots> \<le> 2 * 2 ^ bit_length (n div 2)" using IH(2) by simp
    finally have "n < 2 ^ bit_length n" using eq by simp
    with lower show ?thesis by simp
  qed
qed

lemma round_div_half_even_nearest:
  "0 < d \<Longrightarrow> 2 * (int (round_div_half_even n d) * int d - int n) \<le> int d
     \<and> - int d \<le> 2 * (int (round_div_half_even n d) * int d - int n)"
proof -
  assume d: "0 < d"
  have split: "int n = int (n div d) * int d + int (n mod d)"
    by (metis div_mult_mod_eq of_nat_add of_nat_mult)
  have r: "int (n mod d) < int d" using d by simp
  show ?thesis
    using split r
    by (auto simp: round_div_half_even_def Let_def algebra_simps)
qed

section \<open>Paired coordinate properties of a box\<close>

lemma getitem_long:
  "2 \<le> length obj \<Longrightarrow> getitem obj 0 = Inr (obj ! 0)"
  "2 \<le> length obj \<Longrightarrow> getitem obj (Suc 0) = Inr (obj ! Suc 0)"
  by (cases obj; auto simp: getitem_def)+

text \<open>
  C3. For every box and every pair \<open>(x, y)\<close>, setting \<open>video_window_position\<close>,
  \<open>gui_window_position\<close> or \<open>window_position_IR_plot\<close> to \<open>(x, y)\<close> returns normally, and
  reading the same property afterwards gives exactly \<open>(x, y)\<close>.
\<close>

theorem paired_property_round_trip:
  "fst (set_video_window_position b [x, y]) = Inr ()
   \<and> video_window_position (snd (set_video_window_position b [x, y])) = (x, y)
   \<and> fst (set_gui_window_position b [x, y]) = Inr ()
   \<and> gui_window_position (snd (set_gui_window_position b [x, y])) = (x, y)
   \<and> fst (set_window_position_IR_plot b [x, y]) = Inr ()
   \<and> window_position_IR_plot (snd (set_window_position_IR_plot b [x, y])) = (x, y)"
  by (simp add: set_video_window_position_def video_window_position_def
        set_gui_window_position_def gui_window_position_def
        set_window_position_IR_plot_def window_position_IR_plot_def getitem_def)

text \<open>
  C2, as the specification states it: setting a paired coordinate property to a sequence
  whose length is not 2 fails. A sequence of three elements is accepted: the setter reads
  \<open>obj[0]\<close> and \<open>obj[1]\<close> and never looks at the length.
\<close>

theorem paired_setter_accepts_three_elements:
  "length [Some 1, Some 2, Some (3::int)] \<noteq> 2
   \<and> fst (set_video_window_position example_box [Some 1, Some 2, Some 3]) = Inr ()
   \<and> video_window_position (snd (set_video_window_position example_box [Some 1, Some 2, Some 3]))
       = (Some 1, Some 2)"
  by (simp add: set_video_window_position_def video_window_position_def getitem_def)

text \<open>
  C2, amended. For every box, setting a paired coordinate property to a sequence of fewer
  than two elements fails with \<open>IndexError\<close>; a sequence of two or more elements is
  accepted, and the property then reads as its first two elements.
\<close>

theorem paired_setter_arity:
  "(length obj < 2 \<longrightarrow>
      fst (set_video_window_position b obj) = Inl IndexError
      \<and> fst (set_gui_window_position b obj) = Inl IndexError
      \<and> fst (set_window_position_IR_plot b obj) = Inl IndexError)
   \<and> (2 \<le> length obj \<longrightarrow>
      fst (set_video_window_position b obj) = Inr ()
      \<and> video_window_position (snd (set_video_window_position b obj)) = (obj ! 0, obj ! 1)
      \<and> fst (set_gui_window_position b obj) = Inr ()
      \<and> gui_window_position (snd (set_gui_window_position b obj)) = (obj ! 0, obj ! 1)
      \<and> fst (set_window_position_IR_plot b obj) = Inr ()
      \<and> window_position_IR_plot (snd (set_window_position_IR_plot b obj)) = (obj ! 0, obj ! 1))"
proof (intro conjI impI)
  assume short: "length obj < 2"
  then consider "obj = []" | x where "obj = [x]"
    by (cases obj) (auto simp: length_Suc_conv)
  note cases_short = this
  show "fst (set_video_window_position b obj) = Inl IndexError"
    by (rule cases_short) (simp_all add: set_video_window_position_def getitem_def)
  show "fst (set_gui_window_position b obj) = Inl IndexError"
    by (rule cases_short) (simp_all add: set_gui_window_position_def getitem_def)
  show "fst (set_window_position_IR_plot b obj) = Inl IndexError"
    by (rule cases_short) (simp_all add: set_window_position_IR_plot_def getitem_def)
next
  assume long: "2 \<le> length obj"
  then show "fst (set_video_window_position b obj) = Inr ()"
    by (simp add: set_video_window_position_def getitem_long Let_def)
next
  assume long: "2 \<le> length obj"
  then show "video_window_position (snd (set_video_window_position b obj)) = (obj ! 0, obj ! 1)"
    by (simp add: set_video_window_position_def video_window_position_def getitem_long Let_def)
next
  assume long: "2 \<le> length obj"
  then show "fst (set_gui_window_position b obj) = Inr ()"
    by (simp add: set_gui_window_position_def getitem_long Let_def)
next
  assume long: "2 \<le> length obj"
  then show "gui_window_position (snd (set_gui_window_position b obj)) = (obj ! 0, obj ! 1)"
    by (simp add: set_gui_window_position_def gui_window_position_def getitem_long Let_def)
next
  assume long: "2 \<le> length obj"
  then show "fst (set_window_position_IR_plot b obj) = Inr ()"
    by (simp add: set_window_position_IR_plot_def getitem_long Let_def)
next
  assume long: "2 \<le> length obj"
  then show "window_position_IR_plot (snd (set_window_position_IR_plot b obj)) = (obj ! 0, obj ! 1)"
    by (simp add: set_window_position_IR_plot_def window_position_IR_plot_def getitem_long Let_def)
qed

theorem paired_setter_arity_witness:
  "length [Some (7::int)] < 2
   \<and> fst (set_video_window_position example_box [Some 7]) = Inl IndexError
   \<and> fst (set_gui_window_position example_box [Some 7]) = Inl IndexError
   \<and> fst (set_window_position_IR_plot example_box [Some 7]) = Inl IndexError
   \<and> 2 \<le> length [Some 1, Some 2, Some (3::int)]
   \<and> fst (set_gui_window_position example_box [Some 1, Some 2, Some 3]) = Inr ()
   \<and> gui_window_position (snd (set_gui_window_position example_box [Some 1, Some 2, Some 3]))
       = (Some 1, Some 2)"
  using paired_setter_arity [of "[Some 7]" example_box]
    paired_setter_arity [of "[Some 1, Some 2, Some 3]" example_box]
  by simp

text \<open>
  C9. The getters of the paired coordinate properties have no error branch: they return
  a pair for every box, and for a box whose two backing fields are both null that pair
  is \<open>(None, None)\<close>.
\<close>

theorem paired_getter_of_unset_fields:
  "(video_window_position_x b = None \<and> video_window_position_y b = None
      \<longrightarrow> video_window_position b = (None, None))
   \<and> (gui_window_position_x b = None \<and> gui_window_position_y b = None
      \<longrightarrow> gui_window_position b = (None, None))
   \<and> (window_position_IR_plot_x b = None \<and> window_position_IR_plot_y b = None
      \<longrightarrow> window_position_IR_plot b = (None, None))"
  by (simp add: video_window_position_def gui_window_position_def window_position_IR_plot_def)

theorem paired_getter_of_unset_fields_witness:
  "video_window_position_x example_box = None \<and> video_window_position_y example_box = None
   \<and> gui_window_position_x example_box = None \<and> gui_window_position_y example_box = None
   \<and> window_position_IR_plot_x example_box = None \<and> window_position_IR_plot_y example_box = None
   \<and> video_window_position example_box = (None, None)
   \<and> gui_window_position example_box = (None, None)
   \<and> window_position_IR_plot example_box = (None, None)"
proof -
  have unset:
    "video_window_position_x example_box = None" "video_window_position_y example_box = None"
    "gui_window_position_x example_box = None" "gui_window_position_y example_box = None"
    "window_position_IR_plot_x example_box = None" "window_position_IR_plot_y example_box = None"
    by (simp_all add: example_box_def)
  with paired_getter_of_unset_fields [of example_box] show ?thesis
    by simp
qed

text \<open>
  C10. Whatever sequence a paired coordinate property is set to, and whether the setter
  returns or raises, the box it leaves differs from the box it was given in the two
  backing fields of that property at most: putting their old values back gives the
  original box, every other field included.
\<close>

theorem paired_setter_frame:
  "(snd (set_video_window_position b obj))
      \<lparr>video_window_position_x := video_window_position_x b,
       video_window_position_y := video_window_position_y b\<rparr> = b
   \<and> (snd (set_gui_window_position b obj))
      \<lparr>gui_window_position_x := gui_window_position_x b,
       gui_window_position_y := gui_window_position_y b\<rparr> = b
   \<and> (snd (set_window_position_IR_plot b obj))
      \<lparr>window_position_IR_plot_x := window_position_IR_plot_x b,
       window_position_IR_plot_y := window_position_IR_plot_y b\<rparr> = b"
  by (simp add: set_video_window_position_def set_gui_window_position_def
        set_window_position_IR_plot_def Let_def split: sum.split)

section \<open>The water aggregate of a box\<close>

text \<open>
  C5. \<open>mean_water_consumed\<close> computes no mean of water consumed. The class declares no
  \<open>session_list\<close>, so for a box that carries no such attribute of its own the property
  raises \<open>AttributeError\<close>; whenever it does return a value, that value is the \<open>name\<close> of
  the first element of \<open>session_list\<close>; and the water consumption recorded in the
  sessions of that list has no influence on the outcome.
\<close>

theorem mean_water_consumed_is_stub:
  "(instance_dict b ''session_list'' = None \<longrightarrow> mean_water_consumed b = Inl AttributeError)
   \<and> (\<forall>v. mean_water_consumed b = Inr v \<longrightarrow>
         (\<exists>s rest. instance_dict b ''session_list'' = Some (s # rest) \<and> v = name s))
   \<and> mean_water_consumed
         (b\<lparr>instance_dict := (instance_dict b)(''session_list'' \<mapsto>
               map (\<lambda>s. s\<lparr>user_data_left_water_consumption := l,
                            user_data_right_water_consumption := r\<rparr>) ss)\<rparr>)
       = mean_water_consumed (b\<lparr>instance_dict := (instance_dict b)(''session_list'' \<mapsto> ss)\<rparr>)"
proof (intro conjI allI impI)
  assume "instance_dict b ''session_list'' = None"
  then show "mean_water_consumed b = Inl AttributeError"
    by (simp add: mean_water_consumed_def)
next
  fix v
  assume returned: "mean_water_consumed b = Inr v"
  then obtain ss where attr: "instance_dict b ''session_list'' = Some ss"
    by (cases "instance_dict b ''session_list''") (simp_all add: mean_water_consumed_def)
  with returned obtain s rest where first: "ss = s # rest"
    by (cases ss) (simp_all add: mean_water_consumed_def getitem_def)
  with returned attr have "v = name s"
    by (simp add: mean_water_consumed_def getitem_def)
  with attr first show "\<exists>s rest. instance_dict b ''session_list'' = Some (s # rest) \<and> v = name s"
    by blast
next
  show "mean_water_consumed
         (b\<lparr>instance_dict := (instance_dict b)(''session_list'' \<mapsto>
               map (\<lambda>s. s\<lparr>user_data_left_water_consumption := l,
                            user_data_right_water_consumption := r\<rparr>) ss)\<rparr>)
       = mean_water_consumed (b\<lparr>instance_dict := (instance_dict b)(''session_list'' \<mapsto> ss)\<rparr>)"
    by (cases ss) (simp_all add: mean_water_consumed_def getitem_def)
qed

theorem mean_water_consumed_is_stub_witness:
  "instance_dict example_box ''session_list'' = None
   \<and> mean_water_consumed example_box = Inl AttributeError
   \<and> mean_water_consumed
         (example_box\<lparr>instance_dict := (\<lambda>attr. None)(''session_list'' \<mapsto>
            [unstarted_session\<lparr>name := Some (ascii ''s1''),
               user_data_left_water_consumption := PyFloat (float_of_decimal 5 2)\<rparr>])\<rparr>)
       = Inr (Some (ascii ''s1''))
   \<and> (\<exists>s rest.
         instance_dict
           (example_box\<lparr>instance_dict := (\<lambda>attr. None)(''session_list'' \<mapsto>
              [unstarted_session\<lparr>name := Some (ascii ''s1''),
                 user_data_left_water_consumption := PyFloat (float_of_decimal 5 2)\<rparr>])\<rparr>)
           ''session_list'' = Some (s # rest)
         \<and> Some (ascii ''s1'') = name s)"
proof -
  let ?b = "example_box\<lparr>instance_dict := (\<lambda>attr. None)(''session_list'' \<mapsto>
            [unstarted_session\<lparr>name := Some (ascii ''s1''),
               user_data_left_water_consumption := PyFloat (float_of_decimal 5 2)\<rparr>])\<rparr>"
  have unset: "instance_dict example_box ''session_list'' = None"
    by (simp add: example_box_def)
  have named: "mean_water_consumed ?b = Inr (Some (ascii ''s1''))"
    by (simp add: mean_water_consumed_def getitem_def)
  from mean_water_consumed_is_stub [of example_box] unset
  have "mean_water_consumed example_box = Inl AttributeError"
    by blast
  moreover from mean_water_consumed_is_stub [of ?b] named
  have "\<exists>s rest. instance_dict ?b ''session_list'' = Some (s # rest)
          \<and> Some (ascii ''s1'') = name s"
    by blast
  ultimately show ?thesis
    using unset named by blast
qed

section \<open>Derived values of a session\<close>

text \<open>
  C6. The label of a session is the literal \<open>Unstarted\<close> when its name is unassigned or
  empty, and is the stored name otherwise.
\<close>

theorem session_str_label:
  "(name s = None \<or> name s = Some [] \<longrightarrow> session_str s = ascii ''Unstarted'')
   \<and> (\<forall>n. name s = Some n \<and> n \<noteq> [] \<longrightarrow> session_str s = n)"
  by (auto simp: session_str_def)

theorem session_str_label_witness:
  "name unstarted_session = None
   \<and> session_str unstarted_session = ascii ''Unstarted''
   \<and> session_str (unstarted_session\<lparr>name := Some []\<rparr>) = ascii ''Unstarted''
   \<and> ascii ''2020-01-01_mouseX'' \<noteq> []
   \<and> session_str (unstarted_session\<lparr>name := Some (ascii ''2020-01-01_mouseX'')\<rparr>)
       = ascii ''2020-01-01_mouseX''"
proof -
  have unassigned: "name unstarted_session = None"
    by (simp add: unstarted_session_def)
  have nonempty: "ascii ''2020-01-01_mouseX'' \<noteq> []"
    by (simp add: ascii_def)
  from session_str_label [of unstarted_session] unassigned
  have "session_str unstarted_session = ascii ''Unstarted''"
    by blast
  moreover from session_str_label [of "unstarted_session\<lparr>name := Some []\<rparr>"]
  have "session_str (unstarted_session\<lparr>name := Some []\<rparr>) = ascii ''Unstarted''"
    by simp
  moreover
  from session_str_label [of "unstarted_session\<lparr>name := Some (ascii ''2020-01-01_mouseX'')\<rparr>"]
    nonempty
  have "session_str (unstarted_session\<lparr>name := Some (ascii ''2020-01-01_mouseX'')\<rparr>)
          = ascii ''2020-01-01_mouseX''"
    by simp
  ultimately show ?thesis
    using unassigned nonempty by blast
qed

subsection \<open>Formatting the floats of the examples\<close>

lemmas float_eval =
  round_to_double_def bit_length.simps ratio_ge_pow2_def round_div_half_even_def
  Let_def float_of_decimal_def float_of_int_def decimal.simps ascii_def

lemma float_2_5: "float_of_decimal 5 2 = Finite False 5629499534213120 (- 51)"
  by (simp add: float_eval)

lemma float_0_03: "float_of_decimal 3 100 = Finite False 8646911284551352 (- 58)"
  by (simp add: float_eval)

lemma float_0_873: "float_of_decimal 873 1000 = Finite False 7863284949388886 (- 53)"
  by (simp add: float_eval)

lemma float_0_0: "float_of_decimal 0 1 = Finite False 0 (- 1074)"
  by (simp add: float_eval)

lemma format_2_5: "float_format_f 2 (float_of_decimal 5 2) = ascii ''2.50''"
  by (simp add: float_eval)

lemma format_1000_times_0_03:
  "float_format_f 1 (float_mul (float_of_int 1000) (float_of_decimal 3 100)) = ascii ''30.0''"
  by (simp add: float_eval)

lemma format_100_times_0_873:
  "float_format_f 0 (float_mul (float_of_int 100) (float_of_decimal 873 1000)) = ascii ''87''"
  by (simp add: float_eval)

subsection \<open>Performance display\<close>

lemma display_perf_cases:
  "display_perf PyNone = ascii ''NA''"
  "display_perf (PyStr t) = ascii ''NA''"
  "display_perf (PyFloat x) = float_format_f 0 (float_mul (float_of_int 100) x)"
  by (simp_all add: display_perf_def)

text \<open>
  C4. The performance display of a session never raises: it is a string for every stored
  value. For a float it is \<open>'%.0f'\<close> of 100 times the float (so \<open>0.873\<close> gives \<open>87\<close>); for
  \<open>None\<close> and for a value that is no number it is the literal \<open>NA\<close>. The same holds on
  the left and on the right.
\<close>

theorem display_perf_formats_or_degrades:
  "(\<forall>x. user_data_left_perf s = PyFloat x \<longrightarrow>
        display_left_perf s = float_format_f 0 (float_mul (float_of_int 100) x))
   \<and> (user_data_left_perf s = PyFloat (float_of_decimal 873 1000) \<longrightarrow>
        display_left_perf s = ascii ''87'')
   \<and> (user_data_left_perf s = PyNone \<longrightarrow> display_left_perf s = ascii ''NA'')
   \<and> (\<forall>t. user_data_left_perf s = PyStr t \<longrightarrow> display_left_perf s = ascii ''NA'')
   \<and> (\<forall>x. user_data_right_perf s = PyFloat x \<longrightarrow>
        display_right_perf s = float_format_f 0 (float_mul (float_of_int 100) x))
   \<and> (user_data_right_perf s = PyFloat (float_of_decimal 873 1000) \<longrightarrow>
        display_right_perf s = ascii ''87'')
   \<and> (user_data_right_perf s = PyNone \<longrightarrow> display_right_perf s = ascii ''NA'')
   \<and> (\<forall>t. user_data_right_perf s = PyStr t \<longrightarrow> display_right_perf s = ascii ''NA'')"
  by (simp add: display_left_perf_def display_right_perf_def display_perf_cases
        format_100_times_0_873)

theorem display_perf_formats_or_degrades_witness:
  "user_data_left_perf (unstarted_session\<lparr>user_data_left_perf := PyFloat (float_of_decimal 873 1000),
        user_data_right_perf := PyStr (ascii ''n/a'')\<rparr>) = PyFloat (float_of_decimal 873 1000)
   \<and> display_left_perf (unstarted_session\<lparr>user_data_left_perf := PyFloat (float_of_decimal 873 1000),
        user_data_right_perf := PyStr (ascii ''n/a'')\<rparr>) = ascii ''87''
   \<and> user_data_right_perf (unstarted_session\<lparr>user_data_left_perf := PyFloat (float_of_decimal 873 1000),
        user_data_right_perf := PyStr (ascii ''n/a'')\<rparr>) = PyStr (ascii ''n/a'')
   \<and> display_right_perf (unstarted_session\<lparr>user_data_left_perf := PyFloat (float_of_decimal 873 1000),
        user_data_right_perf := PyStr (ascii ''n/a'')\<rparr>) = ascii ''NA''
   \<and> user_data_left_perf unstarted_session = PyNone
   \<and> display_left_perf unstarted_session = ascii ''NA''"
proof -
  let ?s = "unstarted_session\<lparr>user_data_left_perf := PyFloat (float_of_decimal 873 1000),
        user_data_right_perf := PyStr (ascii ''n/a'')\<rparr>"
  have left: "user_data_left_perf ?s = PyFloat (float_of_decimal 873 1000)"
    and right: "user_data_right_perf ?s = PyStr (ascii ''n/a'')"
    and absent: "user_data_left_perf unstarted_session = PyNone"
    by (simp_all add: unstarted_session_def)
  from display_perf_formats_or_degrades [of ?s] left
  have "display_left_perf ?s = ascii ''87''"
    by blast
  moreover from display_perf_formats_or_degrades [of ?s] right
  have "display_right_perf ?s = ascii ''NA''"
    by blast
  moreover from display_perf_formats_or_degrades [of unstarted_session] absent
  have "display_left_perf unstarted_session = ascii ''NA''"
    by blast
  ultimately show ?thesis
    using left right absent by blast
qed

subsection \<open>Water summary\<close>

lemma example_floats_true:
  "float_bool (float_of_decimal 5 2)"
  "float_bool (float_of_decimal 3 100)"
  by (simp_all add: float_2_5 float_0_03)

lemma valve_summary_none_or_float:
  "none_or_float c \<Longrightarrow> none_or_float m \<Longrightarrow>
   valve_summary c m =
     Inr ((case c of PyFloat x \<Rightarrow> if float_bool x then float_format_f 2 x else [] | _ \<Rightarrow> [])
          @ (case m of
               PyFloat y \<Rightarrow>
                 if float_bool y
                 then ascii '' @'' @ float_format_f 1 (float_mul (float_of_int 1000) y)
                      @ ascii '' '' @ [GREEK_SMALL_LETTER_MU] @ ascii ''L''
                 else []
             | _ \<Rightarrow> []))"
  by (cases c; cases m) (simp_all add: valve_summary_def)

lemma valve_summary_zero_consumption:
  "valve_summary (PyFloat (Finite sg 0 t)) m = valve_summary PyNone m"
  by (simp add: valve_summary_def)

lemma valve_summary_nothing_recorded: "valve_summary PyNone PyNone = Inr []"
  by (simp add: valve_summary_def)

text \<open>
  C1, as the specification states it: the water summary is empty if no consumption is
  recorded. A session with no left consumption and a left valve mean of \<open>0.03\<close> has the
  left summary \<open>' @30.0 \<mu>L'\<close>: the valve mean is appended whether or not a consumption
  was formatted before it.
\<close>

theorem valve_summary_without_consumption:
  "user_data_left_water_consumption
      (unstarted_session\<lparr>user_data_left_valve_mean := PyFloat (float_of_decimal 3 100)\<rparr>) = PyNone
   \<and> left_valve_summary
        (unstarted_session\<lparr>user_data_left_valve_mean := PyFloat (float_of_decimal 3 100)\<rparr>)
       = Inr (ascii '' @30.0 '' @ [GREEK_SMALL_LETTER_MU] @ ascii ''L'')
   \<and> left_valve_summary
        (unstarted_session\<lparr>user_data_left_valve_mean := PyFloat (float_of_decimal 3 100)\<rparr>)
       \<noteq> Inr []"
proof -
  let ?s = "unstarted_session\<lparr>user_data_left_valve_mean := PyFloat (float_of_decimal 3 100)\<rparr>"
  have absent: "user_data_left_water_consumption ?s = PyNone"
    by (simp add: unstarted_session_def)
  have summary: "left_valve_summary ?s
      = Inr (ascii '' @30.0 '' @ [GREEK_SMALL_LETTER_MU] @ ascii ''L'')"
    using format_1000_times_0_03
    by (simp add: left_valve_summary_def absent valve_summary_none_or_float
          example_floats_true ascii_def)
  have "ascii '' @30.0 '' @ [GREEK_SMALL_LETTER_MU] @ ascii ''L'' \<noteq> []"
    by (simp add: ascii_def)
  with absent summary show ?thesis
    by simp
qed

text \<open>
  C1, amended. For every session whose left (resp. right) consumption and valve mean are
  each \<open>None\<close> or a float, the left (resp. right) water summary is a consumption part
  followed, with no separator, by a valve part. The consumption part is \<open>'%0.2f'\<close> of the
  consumption if the consumption is true, and empty otherwise. The valve part is
  \<open>' @'\<close>, then \<open>'%0.1f'\<close> of 1000 times the valve mean, then a space, GREEK SMALL LETTER
  MU and \<open>L\<close>, if the valve mean is true, and empty otherwise; it does not depend on the
  consumption.
\<close>

theorem valve_summary_parts:
  "(none_or_float (user_data_left_water_consumption s)
      \<and> none_or_float (user_data_left_valve_mean s) \<longrightarrow>
    left_valve_summary s =
      Inr ((case user_data_left_water_consumption s of
              PyFloat x \<Rightarrow> if float_bool x then float_format_f 2 x else []
            | _ \<Rightarrow> [])
           @ (case user_data_left_valve_mean s of
                PyFloat y \<Rightarrow>
                  if float_bool y
                  then ascii '' @'' @ float_format_f 1 (float_mul (float_of_int 1000) y)
                       @ ascii '' '' @ [GREEK_SMALL_LETTER_MU] @ ascii ''L''
                  else []
              | _ \<Rightarrow> [])))
   \<and> (none_or_float (user_data_right_water_consumption s)
      \<and> none_or_float (user_data_right_valve_mean s) \<longrightarrow>
    right_valve_summary s =
      Inr ((case user_data_right_water_consumption s of
              PyFloat x \<Rightarrow> if float_bool x then float_format_f 2 x else []
            | _ \<Rightarrow> [])
           @ (case user_data_right_valve_mean s of
                PyFloat y \<Rightarrow>
                  if float_bool y
                  then ascii '' @'' @ float_format_f 1 (float_mul (float_of_int 1000) y)
                       @ ascii '' '' @ [GREEK_SMALL_LETTER_MU] @ ascii ''L''
                  else []
              | _ \<Rightarrow> [])))"
  by (simp add: left_valve_summary_def right_valve_summary_def valve_summary_none_or_float)

theorem valve_summary_parts_witness:
  "none_or_float (user_data_left_water_consumption unstarted_session)
   \<and> none_or_float (user_data_left_valve_mean unstarted_session)
   \<and> left_valve_summary unstarted_session = Inr []
   \<and> none_or_float (user_data_right_water_consumption
        (unstarted_session\<lparr>user_data_left_water_consumption := PyFloat (float_of_decimal 5 2),
           user_data_right_water_consumption := PyFloat (float_of_decimal 5 2),
           user_data_right_valve_mean := PyFloat (float_of_decimal 3 100)\<rparr>))
   \<and> none_or_float (user_data_right_valve_mean
        (unstarted_session\<lparr>user_data_left_water_consumption := PyFloat (float_of_decimal 5 2),
           user_data_right_water_consumption := PyFloat (float_of_decimal 5 2),
           user_data_right_valve_mean := PyFloat (float_of_decimal 3 100)\<rparr>))
   \<and> left_valve_summary
        (unstarted_session\<lparr>user_data_left_water_consumption := PyFloat (float_of_decimal 5 2),
           user_data_right_water_consumption := PyFloat (float_of_decimal 5 2),
           user_data_right_valve_mean := PyFloat (float_of_decimal 3 100)\<rparr>)
       = Inr (ascii ''2.50'')
   \<and> right_valve_summary
        (unstarted_session\<lparr>user_data_left_water_consumption := PyFloat (float_of_decimal 5 2),
           user_data_right_water_consumption := PyFloat (float_of_decimal 5 2),
           user_data_right_valve_mean := PyFloat (float_of_decimal 3 100)\<rparr>)
       = Inr (ascii ''2.50 @30.0 '' @ [GREEK_SMALL_LETTER_MU] @ ascii ''L'')"
proof -
  let ?s = "unstarted_session\<lparr>user_data_left_water_consumption := PyFloat (float_of_decimal 5 2),
           user_data_right_water_consumption := PyFloat (float_of_decimal 5 2),
           user_data_right_valve_mean := PyFloat (float_of_decimal 3 100)\<rparr>"
  have fields0:
    "user_data_left_water_consumption unstarted_session = PyNone"
    "user_data_left_valve_mean unstarted_session = PyNone"
    by (simp_all add: unstarted_session_def)
  have fields:
    "user_data_left_water_consumption ?s = PyFloat (float_of_decimal 5 2)"
    "user_data_left_valve_mean ?s = PyNone"
    "user_data_right_water_consumption ?s = PyFloat (float_of_decimal 5 2)"
    "user_data_right_valve_mean ?s = PyFloat (float_of_decimal 3 100)"
    by (simp_all add: unstarted_session_def)
  from valve_summary_parts [of unstarted_session]
  have "left_valve_summary unstarted_session = Inr []"
    by (simp add: fields0)
  moreover from valve_summary_parts [of ?s]
  have "left_valve_summary ?s = Inr (ascii ''2.50'')"
    by (simp add: fields example_floats_true format_2_5)
  moreover from valve_summary_parts [of ?s] format_1000_times_0_03
  have "right_valve_summary ?s
      = Inr (ascii ''2.50 @30.0 '' @ [GREEK_SMALL_LETTER_MU] @ ascii ''L'')"
    by (simp add: fields example_floats_true format_2_5 ascii_def)
  ultimately show ?thesis
    by (simp add: fields fields0)
qed

text \<open>
  C8. Presence of a consumption is decided by its truth value, not by a test for
  \<open>None\<close>: a session whose stored left (resp. right) consumption is the float zero has
  the same left (resp. right) water summary as the session with that consumption
  unrecorded, and with no valve mean the summary is the empty string.
\<close>

theorem zero_consumption_is_omitted:
  "(user_data_left_water_consumption s = PyFloat (Finite sg 0 t) \<longrightarrow>
      left_valve_summary s
        = left_valve_summary (s\<lparr>user_data_left_water_consumption := PyNone\<rparr>)
      \<and> (user_data_left_valve_mean s = PyNone \<longrightarrow> left_valve_summary s = Inr []))
   \<and> (user_data_right_water_consumption s = PyFloat (Finite sg 0 t) \<longrightarrow>
      right_valve_summary s
        = right_valve_summary (s\<lparr>user_data_right_water_consumption := PyNone\<rparr>)
      \<and> (user_data_right_valve_mean s = PyNone \<longrightarrow> right_valve_summary s = Inr []))"
  by (simp add: left_valve_summary_def right_valve_summary_def
        valve_summary_zero_consumption valve_summary_nothing_recorded)

theorem zero_consumption_is_omitted_witness:
  "user_data_left_water_consumption
      (unstarted_session\<lparr>user_data_left_water_consumption := PyFloat (float_of_decimal 0 1)\<rparr>)
     = PyFloat (Finite False 0 (- 1074))
   \<and> user_data_left_valve_mean
      (unstarted_session\<lparr>user_data_left_water_consumption := PyFloat (float_of_decimal 0 1)\<rparr>)
     = PyNone
   \<and> left_valve_summary
      (unstarted_session\<lparr>user_data_left_water_consumption := PyFloat (float_of_decimal 0 1)\<rparr>)
     = Inr []
   \<and> left_valve_summary
      (unstarted_session\<lparr>user_data_left_water_consumption := PyFloat (float_of_decimal 0 1)\<rparr>)
     = left_valve_summary unstarted_session"
proof -
  let ?s = "unstarted_session\<lparr>user_data_left_water_consumption := PyFloat (float_of_decimal 0 1)\<rparr>"
  have zero: "user_data_left_water_consumption ?s = PyFloat (Finite False 0 (- 1074))"
    using float_0_0 by simp
  have no_mean: "user_data_left_valve_mean ?s = PyNone"
    by (simp add: unstarted_session_def)
  have unrecorded: "?s\<lparr>user_data_left_water_consumption := PyNone\<rparr> = unstarted_session"
    by (simp add: unstarted_session_def)
  from zero_consumption_is_omitted [of ?s False "- 1074"] zero no_mean
  have "left_valve_summary ?s = left_valve_summary (?s\<lparr>user_data_left_water_consumption := PyNone\<rparr>)"
    and "left_valve_summary ?s = Inr []"
    by blast+
  with unrecorded zero no_mean show ?thesis
    by simp
qed

end
